theory Spec2Isabelle
  imports Main
begin

section \<open>Values of the service\<close>

text \<open>
  The service of \<^verbatim>\<open>main.py\<close> has two handlers, \<^verbatim>\<open>create_test\<close> (POST /tests) and
  \<^verbatim>\<open>get_tests\<close> (GET /tests), a validation function and a configuration lookup. The
  handlers receive what the framework has parsed: the value of \<^verbatim>\<open>await request.json()\<close>
  and the query parameter \<^verbatim>\<open>clinic_id\<close>.

  A JSON value as Python holds it after parsing. A Python \<^verbatim>\<open>dict\<close> is a map from keys to
  values. Numbers are atoms for this program (it never computes with one), so one
  constructor stands for \<^verbatim>\<open>int\<close> and \<^verbatim>\<open>float\<close> alike. A Python \<^verbatim>\<open>str\<close> is a
  \<^typ>\<open>string\<close>, one \<^typ>\<open>char\<close> per code point below U+0100.

  \<^verbatim>\<open>json.loads\<close> also accepts the escape of a lone surrogate, as in \<^verbatim>\<open>"\ud800"\<close>, and
  returns a \<^verbatim>\<open>str\<close> that holds it. Such a \<^verbatim>\<open>str\<close> is a \<^verbatim>\<open>str\<close> in every respect but
  one: it has no UTF-8 encoding. \<open>JSur pre n rest\<close> is the \<^verbatim>\<open>str\<close> made of the characters
  \<open>pre\<close>, then its first lone surrogate (the \<open>n\<close>-th of the range U+D800 to U+DFFF, \<open>n\<close>
  counted modulo 2048), then the characters \<open>rest\<close>, each a code point below U+0100 or a
  further lone surrogate.
\<close>

datatype pychar = Chr char | Sur nat

datatype json =
    JNull
  | JBool bool
  | JNum int
  | JStr string
  | JSur string nat "pychar list"
  | JArr "json list"
  | JObj "string \<Rightarrow> json option"

text \<open>The characters of a \<^verbatim>\<open>str\<close> that holds a lone surrogate.\<close>

definition sur_chars :: "string \<Rightarrow> nat \<Rightarrow> pychar list \<Rightarrow> pychar list" where
  "sur_chars pre n rest = map Chr pre @ Sur n # rest"

text \<open>The exceptions the program meets: Python's own and those of \<^verbatim>\<open>sqlite3\<close>.\<close>

datatype exc =
    TypeError | KeyError | RuntimeError | UnicodeEncodeError
  | IntegrityError | OperationalError | ProgrammingError

subsection \<open>Python's operators on a parsed body\<close>

text \<open>
  \<^verbatim>\<open>str.isspace\<close> for one code point below U+0100: the ASCII controls 9 to 13 and 28 to
  31, the space, U+0085 and U+00A0. \<^verbatim>\<open>s.strip()\<close> drops such characters at both ends.
\<close>

definition isspace :: "char \<Rightarrow> bool" where
  "isspace c = (of_char c \<in> {9, 10, 11, 12, 13, 28, 29, 30, 31, 32, 133, 160 :: nat})"

definition strip :: "string \<Rightarrow> string" where
  "strip s = rev (dropWhile isspace (rev (dropWhile isspace s)))"

text \<open>The same on a \<^verbatim>\<open>str\<close> that holds a lone surrogate; a surrogate is not whitespace.\<close>

fun py_isspace :: "pychar \<Rightarrow> bool" where
  "py_isspace (Chr c) = isspace c"
| "py_isspace (Sur n) = False"

definition py_strip :: "pychar list \<Rightarrow> pychar list" where
  "py_strip s = rev (dropWhile py_isspace (rev (dropWhile py_isspace s)))"

text \<open>\<^verbatim>\<open>sub in s\<close> on two strings: \<^verbatim>\<open>sub\<close> occurs in \<^verbatim>\<open>s\<close> as a contiguous run.\<close>

fun str_contains :: "'a list \<Rightarrow> 'a list \<Rightarrow> bool" where
  "str_contains [] sub = (sub = [])"
| "str_contains (c # s) sub = (take (length sub) (c # s) = sub \<or> str_contains s sub)"

text \<open>
  \<^verbatim>\<open>f in data\<close> for a string \<^verbatim>\<open>f\<close>: key membership on a dict, element membership on a
  list, substring on a string, and \<^verbatim>\<open>TypeError\<close> on \<^verbatim>\<open>None\<close>, a bool or a number, which
  are not containers.
\<close>

fun py_in :: "string \<Rightarrow> json \<Rightarrow> exc + bool" where
  "py_in f (JObj m) = Inr (m f \<noteq> None)"
| "py_in f (JArr xs) = Inr (JStr f \<in> set xs)"
| "py_in f (JStr s) = Inr (str_contains s f)"
| "py_in f (JSur pre n rest) = Inr (str_contains (sur_chars pre n rest) (map Chr f))"
| "py_in f JNull = Inl TypeError"
| "py_in f (JBool b) = Inl TypeError"
| "py_in f (JNum n) = Inl TypeError"

text \<open>
  \<^verbatim>\<open>data[f]\<close> for a string \<^verbatim>\<open>f\<close>: the lookup on a dict (\<^verbatim>\<open>KeyError\<close> on a missing key);
  a list and a string take integer indices only, and the other values are not
  subscriptable: \<^verbatim>\<open>TypeError\<close>.
\<close>

fun py_getitem :: "json \<Rightarrow> string \<Rightarrow> exc + json" where
  "py_getitem (JObj m) f = (case m f of None \<Rightarrow> Inl KeyError | Some v \<Rightarrow> Inr v)"
| "py_getitem (JArr xs) f = Inl TypeError"
| "py_getitem (JStr s) f = Inl TypeError"
| "py_getitem (JSur pre n rest) f = Inl TypeError"
| "py_getitem JNull f = Inl TypeError"
| "py_getitem (JBool b) f = Inl TypeError"
| "py_getitem (JNum n) f = Inl TypeError"

subsection \<open>validate_data\<close>

text \<open>
  \<^verbatim>\<open>
  def validate_data(data):
      fields = ["test_id", "patient_id", "clinic_id", "test_type", "result"]
      for f in fields:
          if f not in data or not isinstance(data[f], str) or not data[f].strip():
              return f"Invalid or missing field: {f}"
      return None
  \<close>
  \<open>fields_list\<close> is the local list \<^verbatim>\<open>fields\<close>; \<open>field_fails\<close> is the condition of the
  \<^verbatim>\<open>if\<close>, with the short circuit of \<^verbatim>\<open>or\<close>: an exception of an operand is the exception
  of the whole. \<^verbatim>\<open>isinstance(data[f], str)\<close> holds for \<open>JStr\<close> and for \<open>JSur\<close>.
\<close>

definition fields_list :: "string list" where
  "fields_list = [''test_id'', ''patient_id'', ''clinic_id'', ''test_type'', ''result'']"

definition field_fails :: "json \<Rightarrow> string \<Rightarrow> exc + bool" where
  "field_fails data f =
     (case py_in f data of
        Inl e \<Rightarrow> Inl e
      | Inr False \<Rightarrow> Inr True
      | Inr True \<Rightarrow>
          (case py_getitem data f of
             Inl e \<Rightarrow> Inl e
           | Inr (JStr s) \<Rightarrow> Inr (strip s = [])
           | Inr (JSur pre n rest) \<Rightarrow> Inr (py_strip (sur_chars pre n rest) = [])
           | Inr _ \<Rightarrow> Inr True))"

fun validate_loop :: "json \<Rightarrow> string list \<Rightarrow> exc + string option" where
  "validate_loop data [] = Inr None"
| "validate_loop data (f # fs) =
     (case field_fails data f of
        Inl e \<Rightarrow> Inl e
      | Inr True \<Rightarrow> Inr (Some (''Invalid or missing field: '' @ f))
      | Inr False \<Rightarrow> validate_loop data fs)"

definition validate_data :: "json \<Rightarrow> exc + string option" where
  "validate_data data = validate_loop data fields_list"

subsection \<open>Configuration\<close>

text \<open>
  \<^verbatim>\<open>
  DB_PATH = os.getenv("DATABASE_URL", "records.db")
  if not DB_PATH:
      raise RuntimeError("DATABASE_URL environment variable is not set")
  \<close>
  The environment is the process environment after \<^verbatim>\<open>load_dotenv()\<close>. \<^verbatim>\<open>os.getenv\<close> gives
  the default only when the variable is not set.
\<close>

definition os_getenv :: "(string \<Rightarrow> string option) \<Rightarrow> string \<Rightarrow> string \<Rightarrow> string" where
  "os_getenv environ key dflt = (case environ key of None \<Rightarrow> dflt | Some v \<Rightarrow> v)"

definition DB_PATH :: "(string \<Rightarrow> string option) \<Rightarrow> exc + string" where
  "DB_PATH environ =
     (let p = os_getenv environ ''DATABASE_URL'' ''records.db''
      in if p = [] then Inl RuntimeError else Inr p)"

section \<open>Storage\<close>

text \<open>
  One row of the table \<^verbatim>\<open>tests\<close>: six \<^verbatim>\<open>TEXT\<close> columns, \<^verbatim>\<open>test_id\<close> the primary key.
\<close>

record test_row =
  test_id :: string
  patient_id :: string
  clinic_id :: string
  test_type :: string
  result :: string
  created_at :: string

text \<open>
  The statements the handlers execute, and the calls into \<^verbatim>\<open>sqlite3\<close> that can fail for
  reasons of the storage itself (a locked or unreadable file, a full disk, a value longer
  than the library accepts). Which call fails, and with what, is a parameter of every
  handler: \<open>flt c = Some e\<close> makes call \<open>c\<close> raise \<open>e\<close>, \<open>flt c = None\<close> lets it run. A call is a
  statement with its parameters, so a failure may depend on the values it is given.
\<close>

datatype sql = BEGIN | INSERT test_row | COMMIT | ROLLBACK | SELECT string

datatype call = Connect | Execute sql

type_synonym faults = "call \<Rightarrow> exc option"

text \<open>
  What a handler leaves behind: every call into storage, every close of a connection and
  every log record, in order. A log record keeps the level and the dict given to
  \<^verbatim>\<open>json.dumps\<close>; \<open>LExc e\<close> stands for \<^verbatim>\<open>str(e)\<close>, and \<open>LJson v\<close> is a value of the body,
  which \<^verbatim>\<open>json.dumps\<close> writes whatever it is (a lone surrogate as its escape).
\<close>

datatype level = INFO | WARNING | ERROR

datatype logval = LStr string | LInt int | LExc exc | LJson json

datatype event = Call call | Closed | Logged level "(string \<times> logval) list"

text \<open>
  The world of a handler: the committed rows of \<^verbatim>\<open>tests\<close> in rowid order (the order of
  insertion, as nothing deletes), the open connections, and the trace. A connection is
  \<open>None\<close> outside a transaction and \<open>Some rows\<close> inside one, \<open>rows\<close> being the table as the
  transaction sees it. The connection a handler opens is the head of \<open>conns\<close> until the
  handler closes it.
\<close>

record world =
  tests :: "test_row list"
  conns :: "test_row list option list"
  trace :: "event list"

text \<open>A computation changes the world and returns a value or raises.\<close>

type_synonym 'a prog = "world \<Rightarrow> (exc + 'a) \<times> world"

definition ret :: "'a \<Rightarrow> 'a prog" where
  "ret x w = (Inr x, w)"

definition of_result :: "exc + 'a \<Rightarrow> 'a prog" where
  "of_result r w = (r, w)"

definition seq :: "'a prog \<Rightarrow> ('a \<Rightarrow> 'b prog) \<Rightarrow> 'b prog" where
  "seq m f w = (case m w of (Inl e, w') \<Rightarrow> (Inl e, w') | (Inr x, w') \<Rightarrow> f x w')"

text \<open>\<^verbatim>\<open>try: m except Exception as e: h(e)\<close> and \<^verbatim>\<open>try: m finally: fin\<close>.\<close>

definition try_except :: "'a prog \<Rightarrow> (exc \<Rightarrow> 'a prog) \<Rightarrow> 'a prog" where
  "try_except m h w = (case m w of (Inl e, w') \<Rightarrow> h e w' | (Inr x, w') \<Rightarrow> (Inr x, w'))"

definition try_finally :: "'a prog \<Rightarrow> (world \<Rightarrow> world) \<Rightarrow> 'a prog" where
  "try_finally m fin w = (case m w of (r, w') \<Rightarrow> (r, fin w'))"

definition emit :: "event \<Rightarrow> world \<Rightarrow> world" where
  "emit ev w = w\<lparr>trace := trace w @ [ev]\<rparr>"

definition logger :: "level \<Rightarrow> (string \<times> logval) list \<Rightarrow> unit prog" where
  "logger l payload w = (Inr (), emit (Logged l payload) w)"

subsection \<open>sqlite3\<close>

text \<open>\<^verbatim>\<open>sqlite3.connect(DB_PATH)\<close>: a new connection, outside any transaction.\<close>

definition sqlite3_connect :: "faults \<Rightarrow> unit prog" where
  "sqlite3_connect flt w =
     (let w1 = emit (Call Connect) w
      in case flt Connect of
           Some e \<Rightarrow> (Inl e, w1)
         | None \<Rightarrow> (Inr (), w1\<lparr>conns := None # conns w1\<rparr>))"

text \<open>
  One statement on a connection in state \<open>c\<close>, the other connections being \<open>cs\<close>. SQLite
  refuses \<^verbatim>\<open>BEGIN\<close> inside a transaction and \<^verbatim>\<open>COMMIT\<close> or \<^verbatim>\<open>ROLLBACK\<close> outside one
  (\<^verbatim>\<open>OperationalError\<close>); an \<^verbatim>\<open>INSERT\<close> of a key the table holds fails with
  \<^verbatim>\<open>IntegrityError\<close> and changes nothing; outside a transaction a statement commits on
  its own (the connection of \<^verbatim>\<open>create_test\<close> has \<^verbatim>\<open>isolation_level=None\<close>). The
  comparison of \<^verbatim>\<open>WHERE clinic_id = ?\<close> on a \<^verbatim>\<open>TEXT\<close> column is equality of strings.
\<close>

fun statement :: "sql \<Rightarrow> test_row list option \<Rightarrow> test_row list option list \<Rightarrow> test_row list prog" where
  "statement BEGIN None cs w = (Inr [], w\<lparr>conns := Some (tests w) # cs\<rparr>)"
| "statement BEGIN (Some t) cs w = (Inl OperationalError, w)"
| "statement (INSERT r) None cs w =
     (if test_id r \<in> test_id ` set (tests w) then (Inl IntegrityError, w)
      else (Inr [], w\<lparr>tests := tests w @ [r]\<rparr>))"
| "statement (INSERT r) (Some t) cs w =
     (if test_id r \<in> test_id ` set t then (Inl IntegrityError, w)
      else (Inr [], w\<lparr>conns := Some (t @ [r]) # cs\<rparr>))"
| "statement COMMIT None cs w = (Inl OperationalError, w)"
| "statement COMMIT (Some t) cs w = (Inr [], w\<lparr>tests := t, conns := None # cs\<rparr>)"
| "statement ROLLBACK None cs w = (Inl OperationalError, w)"
| "statement ROLLBACK (Some t) cs w = (Inr [], w\<lparr>conns := None # cs\<rparr>)"
| "statement (SELECT cid) None cs w = (Inr (filter (\<lambda>r. clinic_id r = cid) (tests w)), w)"
| "statement (SELECT cid) (Some t) cs w = (Inr (filter (\<lambda>r. clinic_id r = cid) t), w)"

text \<open>
  \<^verbatim>\<open>cursor.execute(q, params)\<close> followed, for a query, by \<^verbatim>\<open>cursor.fetchall()\<close>, on the
  handler's connection. With no open connection \<^verbatim>\<open>sqlite3\<close> raises \<^verbatim>\<open>ProgrammingError\<close>.
\<close>

definition execute :: "faults \<Rightarrow> sql \<Rightarrow> test_row list prog" where
  "execute flt q w =
     (let w1 = emit (Call (Execute q)) w
      in case flt (Execute q) of
           Some e \<Rightarrow> (Inl e, w1)
         | None \<Rightarrow>
             (case conns w1 of
                [] \<Rightarrow> (Inl ProgrammingError, w1)
              | c # cs \<Rightarrow> statement q c cs w1))"

text \<open>\<^verbatim>\<open>conn.close()\<close>: the connection goes, and with it a transaction it still holds.\<close>

definition conn_close :: "world \<Rightarrow> world" where
  "conn_close w = (emit Closed w)\<lparr>conns := tl (conns w)\<rparr>"

section \<open>The handlers\<close>

text \<open>
  What a handler returns: a \<^verbatim>\<open>Response(content, status_code, media_type)\<close> it builds
  itself, or a value that FastAPI serialises as JSON with its default status, 200.
\<close>

datatype response = Response string nat string | Value json

fun http_status :: "response \<Rightarrow> nat" where
  "http_status (Response content status_code media_type) = status_code"
| "http_status (Value v) = 200"

subsection \<open>create_test\<close>

text \<open>
  A value bound as a parameter of the \<^verbatim>\<open>INSERT\<close>. \<^verbatim>\<open>sqlite3\<close> binds a \<^verbatim>\<open>str\<close> as its UTF-8
  encoding: a \<^verbatim>\<open>str\<close> that holds a lone surrogate has none, and \<^verbatim>\<open>cursor.execute\<close> raises
  \<^verbatim>\<open>UnicodeEncodeError\<close> before the statement reaches the database. The statement runs
  only after \<open>validate_data\<close> has returned \<^verbatim>\<open>None\<close>, and then each of the five values is a
  \<^verbatim>\<open>str\<close> (lemma \<open>validate_data_None\<close> below); a value of another type, which \<^verbatim>\<open>sqlite3\<close>
  would convert or refuse, is refused here.
\<close>

fun bind_text :: "json \<Rightarrow> exc + string" where
  "bind_text (JStr s) = Inr s"
| "bind_text (JSur pre n rest) = Inl UnicodeEncodeError"
| "bind_text JNull = Inl ProgrammingError"
| "bind_text (JBool b) = Inl ProgrammingError"
| "bind_text (JNum n) = Inl ProgrammingError"
| "bind_text (JArr xs) = Inl ProgrammingError"
| "bind_text (JObj m) = Inl ProgrammingError"

text \<open>
  The parameters of the \<^verbatim>\<open>INSERT\<close> (lines 110 to 117): the tuple is evaluated left to
  right, then \<^verbatim>\<open>cursor.execute\<close> binds its values in the same order; \<open>now\<close> is
  \<^verbatim>\<open>datetime.now().isoformat()\<close>, the clock of the server.
\<close>

definition insert_params :: "string \<Rightarrow> json \<Rightarrow> exc + test_row" where
  "insert_params now body =
     (case py_getitem body ''test_id'' of Inl e \<Rightarrow> Inl e | Inr v1 \<Rightarrow>
      (case py_getitem body ''patient_id'' of Inl e \<Rightarrow> Inl e | Inr v2 \<Rightarrow>
      (case py_getitem body ''clinic_id'' of Inl e \<Rightarrow> Inl e | Inr v3 \<Rightarrow>
      (case py_getitem body ''test_type'' of Inl e \<Rightarrow> Inl e | Inr v4 \<Rightarrow>
      (case py_getitem body ''result'' of Inl e \<Rightarrow> Inl e | Inr v5 \<Rightarrow>
      (case bind_text v1 of Inl e \<Rightarrow> Inl e | Inr a \<Rightarrow>
      (case bind_text v2 of Inl e \<Rightarrow> Inl e | Inr b \<Rightarrow>
      (case bind_text v3 of Inl e \<Rightarrow> Inl e | Inr c \<Rightarrow>
      (case bind_text v4 of Inl e \<Rightarrow> Inl e | Inr d \<Rightarrow>
      (case bind_text v5 of Inl e \<Rightarrow> Inl e | Inr r \<Rightarrow>
         Inr \<lparr>test_id = a, patient_id = b, clinic_id = c, test_type = d,
              result = r, created_at = now\<rparr>))))))))))"

text \<open>The body of the \<^verbatim>\<open>try\<close> statement (lines 103 to 131).\<close>

definition create_test_try :: "faults \<Rightarrow> string \<Rightarrow> string \<Rightarrow> json \<Rightarrow> response prog" where
  "create_test_try flt req_id now body =
     seq (execute flt BEGIN) (\<lambda>_.
     seq (of_result (insert_params now body)) (\<lambda>row.
     seq (execute flt (INSERT row)) (\<lambda>_.
     seq (execute flt COMMIT) (\<lambda>_.
     seq (of_result (py_getitem body ''test_id'')) (\<lambda>t.
     seq (logger INFO [(''event'', LStr ''test_created''), (''request_id'', LStr req_id),
                       (''test_id'', LJson t)]) (\<lambda>_.
     ret (Value (JObj [''status'' \<mapsto> JStr ''success'']))))))))"

text \<open>
  The two \<^verbatim>\<open>except\<close> clauses (lines 133 to 169): \<^verbatim>\<open>sqlite3.IntegrityError\<close> first, then
  \<^verbatim>\<open>Exception\<close>, which takes every other exception. An exception raised inside a clause
  leaves the handler.
\<close>

definition create_test_except :: "faults \<Rightarrow> string \<Rightarrow> json \<Rightarrow> exc \<Rightarrow> response prog" where
  \<open>create_test_except flt req_id body e =
     (if e = IntegrityError then
        seq (execute flt ROLLBACK) (\<lambda>_.
        seq (of_result (py_getitem body ''test_id'')) (\<lambda>t.
        seq (logger ERROR [(''event'', LStr ''duplicate_test''), (''request_id'', LStr req_id),
                           (''test_id'', LJson t)]) (\<lambda>_.
        ret (Response ''{"error":"Conflict: test_id exists"}'' 409 ''application/json''))))
      else
        seq (execute flt ROLLBACK) (\<lambda>_.
        seq (logger ERROR [(''event'', LStr ''internal_server_error''),
                           (''request_id'', LStr req_id), (''error'', LExc e)]) (\<lambda>_.
        ret (Response ''{"error":"Internal Error"}'' 500 ''application/json''))))\<close>

text \<open>Lines 99 to 172: the connection, the \<^verbatim>\<open>try\<close> statement and its \<^verbatim>\<open>finally\<close>.\<close>

definition create_test_store :: "faults \<Rightarrow> string \<Rightarrow> string \<Rightarrow> json \<Rightarrow> response prog" where
  "create_test_store flt req_id now body =
     seq (sqlite3_connect flt) (\<lambda>_.
     try_finally
       (try_except (create_test_try flt req_id now body) (create_test_except flt req_id body))
       conn_close)"

text \<open>Lines 83 to 97: the answer to a payload that \<open>validate_data\<close> refuses.\<close>

definition create_test_invalid :: "string \<Rightarrow> string \<Rightarrow> response prog" where
  \<open>create_test_invalid req_id val_error =
     seq (logger WARNING [(''event'', LStr ''validation_failed''), (''request_id'', LStr req_id),
                          (''reason'', LStr val_error)]) (\<lambda>_.
     ret (Response (''{"error":"'' @ val_error @ ''"}'') 400 ''application/json''))\<close>

text \<open>
  The handler of \<^verbatim>\<open>POST /tests\<close>. \<open>request\<close> is the outcome of \<^verbatim>\<open>await request.json()\<close>:
  \<open>None\<close> when it raises, \<open>Some body\<close> when it returns \<open>body\<close>. \<open>req_id\<close> is
  \<^verbatim>\<open>str(uuid.uuid4())\<close>. \<open>validate_data\<close> is called outside every \<^verbatim>\<open>try\<close>, and so is
  \<^verbatim>\<open>sqlite3.connect\<close>: what they raise leaves the handler. \<^verbatim>\<open>if val_error:\<close> takes a
  non-empty string.
\<close>

definition create_test :: "faults \<Rightarrow> string \<Rightarrow> string \<Rightarrow> json option \<Rightarrow> response prog" where
  \<open>create_test flt req_id now request =
     (case request of
        None \<Rightarrow>
          seq (logger WARNING [(''request_id'', LStr req_id), (''error'', LStr ''Invalid JSON'')]) (\<lambda>_.
          ret (Response ''{"error":"Invalid Json"}'' 400 ''application/json''))
      | Some body \<Rightarrow>
          seq (of_result (validate_data body)) (\<lambda>val_error.
            case val_error of
              None \<Rightarrow> create_test_store flt req_id now body
            | Some msg \<Rightarrow>
                if msg = [] then create_test_store flt req_id now body
                else create_test_invalid req_id msg))\<close>

subsection \<open>get_tests\<close>

text \<open>\<^verbatim>\<open>dict(row)\<close> for a \<^verbatim>\<open>sqlite3.Row\<close> of \<^verbatim>\<open>SELECT *\<close>: the six columns by name.\<close>

definition dict_of_row :: "test_row \<Rightarrow> json" where
  "dict_of_row r =
     JObj [''test_id'' \<mapsto> JStr (test_id r), ''patient_id'' \<mapsto> JStr (patient_id r),
           ''clinic_id'' \<mapsto> JStr (clinic_id r), ''test_type'' \<mapsto> JStr (test_type r),
           ''result'' \<mapsto> JStr (result r), ''created_at'' \<mapsto> JStr (created_at r)]"

text \<open>The body of the \<^verbatim>\<open>try\<close> statement (lines 191 to 207) and its \<^verbatim>\<open>except\<close> clause.\<close>

definition get_tests_try :: "faults \<Rightarrow> string \<Rightarrow> response prog" where
  "get_tests_try flt cid =
     seq (execute flt (SELECT cid)) (\<lambda>rows.
     seq (logger INFO [(''event'', LStr ''fetch_tests''), (''clinic_id'', LStr cid),
                       (''count'', LInt (int (length (map dict_of_row rows))))]) (\<lambda>_.
     ret (Value (JArr (map dict_of_row rows)))))"

definition get_tests_except :: "string \<Rightarrow> exc \<Rightarrow> response prog" where
  \<open>get_tests_except cid e =
     seq (logger ERROR [(''event'', LStr ''fetch_failed''), (''clinic_id'', LStr cid),
                        (''error'', LExc e)]) (\<lambda>_.
     ret (Response ''{"error":"Internal server error"}'' 500 ''application/json''))\<close>

text \<open>Lines 179 to 184: the answer when \<^verbatim>\<open>not clinic_id\<close> holds.\<close>

definition get_tests_missing :: "response prog" where
  \<open>get_tests_missing =
     seq (logger WARNING [(''event'', LStr ''missing_clinic_id'')]) (\<lambda>_.
     ret (Response ''{"error":"clinic_id is required"}'' 400 ''application/json''))\<close>

text \<open>
  The handler of \<^verbatim>\<open>GET /tests\<close>. The parameter \<^verbatim>\<open>clinic_id: str = None\<close> is \<open>None\<close> when the
  query has none. \<^verbatim>\<open>not clinic_id\<close> holds for \<^verbatim>\<open>None\<close> and for the empty string. The
  framework decodes the query string with replacement of what is not UTF-8, so the
  parameter never holds a lone surrogate and always binds.
\<close>

definition get_tests :: "faults \<Rightarrow> string option \<Rightarrow> response prog" where
  "get_tests flt clinic =
     (case clinic of
        None \<Rightarrow> get_tests_missing
      | Some cid \<Rightarrow>
          if cid = [] then get_tests_missing
          else
            seq (sqlite3_connect flt) (\<lambda>_.
            try_finally (try_except (get_tests_try flt cid) (get_tests_except cid)) conn_close))"

section \<open>Vocabulary of the properties\<close>

text \<open>
  The three ways in which a required field of a mapping can be wrong, in the words of the
  specification: it is absent, it is not a string, or it is empty after trimming
  whitespace.
\<close>

definition absent :: "(string \<Rightarrow> json option) \<Rightarrow> string \<Rightarrow> bool" where
  "absent m f = (m f = None)"

definition not_a_string :: "(string \<Rightarrow> json option) \<Rightarrow> string \<Rightarrow> bool" where
  "not_a_string m f =
     (case m f of
        None \<Rightarrow> False
      | Some (JStr s) \<Rightarrow> False
      | Some (JSur pre n rest) \<Rightarrow> False
      | Some _ \<Rightarrow> True)"

definition blank :: "(string \<Rightarrow> json option) \<Rightarrow> string \<Rightarrow> bool" where
  "blank m f =
     (case m f of
        Some (JStr s) \<Rightarrow> strip s = []
      | Some (JSur pre n rest) \<Rightarrow> py_strip (sur_chars pre n rest) = []
      | _ \<Rightarrow> False)"

definition field_invalid :: "(string \<Rightarrow> json option) \<Rightarrow> string \<Rightarrow> bool" where
  "field_invalid m f = (absent m f \<or> not_a_string m f \<or> blank m f)"

text \<open>
  The value of a field can be stored: it is a \<^verbatim>\<open>str\<close> that has a UTF-8 encoding, that is,
  one that holds no lone surrogate.
\<close>

definition encodable :: "(string \<Rightarrow> json option) \<Rightarrow> string \<Rightarrow> bool" where
  "encodable m f = (case m f of Some (JStr s) \<Rightarrow> True | _ \<Rightarrow> False)"

text \<open>
  A computation keeps the other connections when it touches at most the connection at the
  head of \<open>conns\<close>, the one its handler has opened.
\<close>

definition keeps_others :: "'a prog \<Rightarrow> bool" where
  "keeps_others p = (\<forall>w. tl (conns (snd (p w))) = tl (conns w))"

text \<open>An empty database with no open connection, and the storage that never fails.\<close>

definition empty_world :: world where
  "empty_world = \<lparr>tests = [], conns = [], trace = []\<rparr>"

definition no_faults :: faults where
  "no_faults = (\<lambda>c. None)"

text \<open>
  The first scenario of the specification: its payload, the row it stores at a given
  instant, and rows of other clinics whose identifiers differ from \<^verbatim>\<open>c1\<close> in case, in
  length, or are blank.
\<close>

definition payload_t1 :: "string \<Rightarrow> json option" where
  "payload_t1 = [''test_id'' \<mapsto> JStr ''t1'', ''patient_id'' \<mapsto> JStr ''p1'',
     ''clinic_id'' \<mapsto> JStr ''c1'', ''test_type'' \<mapsto> JStr ''pcr'', ''result'' \<mapsto> JStr ''positive'']"

definition row_t1 :: test_row where
  "row_t1 = \<lparr>test_id = ''t1'', patient_id = ''p1'', clinic_id = ''c1'', test_type = ''pcr'',
     result = ''positive'', created_at = ''2026-01-01T00:00:00''\<rparr>"

definition row_t2 :: test_row where
  "row_t2 = \<lparr>test_id = ''t2'', patient_id = ''p2'', clinic_id = ''C1'', test_type = ''pcr'',
     result = ''negative'', created_at = ''2026-01-02T00:00:00''\<rparr>"

definition row_t3 :: test_row where
  "row_t3 = \<lparr>test_id = ''t3'', patient_id = ''p3'', clinic_id = ''c10'', test_type = ''pcr'',
     result = ''negative'', created_at = ''2026-01-03T00:00:00''\<rparr>"

definition row_t4 :: test_row where
  "row_t4 = \<lparr>test_id = ''t4'', patient_id = ''p4'', clinic_id = ''  '', test_type = ''pcr'',
     result = ''negative'', created_at = ''2026-01-04T00:00:00''\<rparr>"

section \<open>Validation\<close>

lemma field_fails_JObj: "field_fails (JObj m) f = Inr (field_invalid m f)"
  by (simp add: field_fails_def field_invalid_def absent_def not_a_string_def blank_def
      split: option.splits json.splits)

lemma validate_loop_JObj:
  "validate_loop (JObj m) fs =
     Inr (map_option (\<lambda>f. ''Invalid or missing field: '' @ f) (find (field_invalid m) fs))"
  by (induction fs) (simp_all add: field_fails_JObj)

text \<open>Stripping never empties a \<^verbatim>\<open>str\<close> that holds a lone surrogate.\<close>

lemma dropWhile_keeps: "x \<in> set s \<Longrightarrow> \<not> P x \<Longrightarrow> x \<in> set (dropWhile P s)"
  by (induction s) auto

lemma py_strip_sur: "py_strip (sur_chars pre n rest) \<noteq> []"
proof -
  have "Sur n \<in> set (dropWhile py_isspace (sur_chars pre n rest))"
    by (rule dropWhile_keeps) (simp_all add: sur_chars_def)
  then have inner: "Sur n \<in> set (rev (dropWhile py_isspace (sur_chars pre n rest)))"
    by simp
  have mem: "Sur n \<in> set (py_strip (sur_chars pre n rest))"
    unfolding py_strip_def set_rev by (rule dropWhile_keeps [OF inner]) simp
  show ?thesis
  proof
    assume "py_strip (sur_chars pre n rest) = []"
    with mem show False by simp
  qed
qed

lemma field_fails_False:
  "field_fails data f = Inr False \<Longrightarrow> \<exists>m. data = JObj m \<and> \<not> field_invalid m f"
  by (cases data)
    (auto simp: field_fails_def field_invalid_def absent_def not_a_string_def blank_def
      split: option.splits json.splits if_splits bool.splits sum.splits)

text \<open>
  A payload that \<open>validate_data\<close> accepts is a mapping whose five fields are strings, not
  blank; they may hold lone surrogates.
\<close>

lemma validate_data_None:
  assumes "validate_data body = Inr None"
  shows "\<exists>m. body = JObj m \<and> (\<forall>f \<in> set fields_list. \<not> field_invalid m f)"
proof -
  have ff: "field_fails body f = Inr False" if "f \<in> set fields_list" for f
    using assms that
    by (auto simp: validate_data_def fields_list_def split: sum.splits bool.splits)
  have "field_fails body ''test_id'' = Inr False"
    by (rule ff) (simp add: fields_list_def)
  then obtain m where m: "body = JObj m"
    by (auto dest!: field_fails_False)
  have "\<not> field_invalid m f" if "f \<in> set fields_list" for f
    using ff [OF that] field_fails_JObj [of m f] by (simp add: m)
  with m show ?thesis by blast
qed

text \<open>In an accepted payload, a field that is a \<open>JStr\<close> is not blank.\<close>

lemma field_valid_JStr:
  "\<not> field_invalid m f \<Longrightarrow> m f = Some (JStr s) \<Longrightarrow> strip s \<noteq> []"
  by (simp add: field_invalid_def blank_def)

text \<open>
  C2. For a body that is a mapping, the five fields are checked in the order test_id,
  patient_id, clinic_id, test_type, result. When some field is absent, not a string or
  blank after trimming, and \<open>f\<close> is the first such field in that order, \<open>create_test\<close>
  returns status 400 with the body \<^verbatim>\<open>{"error":"Invalid or missing field: f"}\<close>, whatever
  the storage would do: the world changes by one log record only, so no row is persisted
  and storage is not called.
\<close>

theorem create_test_invalid_field:
  assumes "find (field_invalid m)
             [''test_id'', ''patient_id'', ''clinic_id'', ''test_type'', ''result''] = Some f"
  shows \<open>create_test flt req_id now (Some (JObj m)) w =
     (Inr (Response (''{"error":"Invalid or missing field: '' @ f @ ''"}'') 400 ''application/json''),
      w\<lparr>trace := trace w @ [Logged WARNING [(''event'', LStr ''validation_failed''),
          (''request_id'', LStr req_id), (''reason'', LStr (''Invalid or missing field: '' @ f))]]\<rparr>)\<close>
proof -
  have "validate_data (JObj m) = Inr (Some (''Invalid or missing field: '' @ f))"
    unfolding validate_data_def validate_loop_JObj fields_list_def assms by simp
  then show ?thesis
    by (simp add: create_test_def create_test_invalid_def seq_def of_result_def logger_def
        ret_def emit_def)
qed

text \<open>
  The second scenario of the specification: \<^verbatim>\<open>patient_id\<close> is the empty string, and the
  answer names it.
\<close>

theorem create_test_invalid_field_witness:
  \<open>find (field_invalid [''test_id'' \<mapsto> JStr ''t2'', ''patient_id'' \<mapsto> JStr [],
       ''clinic_id'' \<mapsto> JStr ''c1'', ''test_type'' \<mapsto> JStr ''pcr'', ''result'' \<mapsto> JStr ''neg''])
     [''test_id'', ''patient_id'', ''clinic_id'', ''test_type'', ''result''] = Some ''patient_id'' \<and>
   create_test no_faults ''r1'' ''2026-01-01T00:00:00''
     (Some (JObj [''test_id'' \<mapsto> JStr ''t2'', ''patient_id'' \<mapsto> JStr [],
       ''clinic_id'' \<mapsto> JStr ''c1'', ''test_type'' \<mapsto> JStr ''pcr'', ''result'' \<mapsto> JStr ''neg'']))
     empty_world =
     (Inr (Response ''{"error":"Invalid or missing field: patient_id"}'' 400 ''application/json''),
      \<lparr>tests = [], conns = [],
       trace = [Logged WARNING [(''event'', LStr ''validation_failed''), (''request_id'', LStr ''r1''),
         (''reason'', LStr ''Invalid or missing field: patient_id'')]]\<rparr>)\<close>
proof -
  have h: "find (field_invalid [''test_id'' \<mapsto> JStr ''t2'', ''patient_id'' \<mapsto> JStr [],
       ''clinic_id'' \<mapsto> JStr ''c1'', ''test_type'' \<mapsto> JStr ''pcr'', ''result'' \<mapsto> JStr ''neg''])
     [''test_id'', ''patient_id'', ''clinic_id'', ''test_type'', ''result''] = Some ''patient_id''"
    by (simp add: field_invalid_def absent_def not_a_string_def blank_def strip_def isspace_def)
  show ?thesis
    using h create_test_invalid_field [OF h, of no_faults "''r1''" "''2026-01-01T00:00:00''" empty_world]
    by (simp add: empty_world_def)
qed

text \<open>
  C8. When the body of a create request does not deserialise (\<^verbatim>\<open>request.json()\<close> raises),
  \<open>create_test\<close> returns status 400 with the body \<^verbatim>\<open>{"error":"Invalid Json"}\<close>. The world
  changes by one log record only: nothing is validated and storage is not called.
\<close>

theorem create_test_invalid_json:
  \<open>create_test flt req_id now None w =
     (Inr (Response ''{"error":"Invalid Json"}'' 400 ''application/json''),
      w\<lparr>trace := trace w @
        [Logged WARNING [(''request_id'', LStr req_id), (''error'', LStr ''Invalid JSON'')]]\<rparr>)\<close>
  by (simp add: create_test_def seq_def logger_def ret_def emit_def)

text \<open>
  C5 (the claim fails on the code). A body that deserialises to a number, to \<^verbatim>\<open>null\<close> or to
  a boolean is not a container: \<^verbatim>\<open>"test_id" not in data\<close> raises \<^verbatim>\<open>TypeError\<close> inside
  \<open>validate_data\<close>, which \<open>create_test\<close> calls outside every \<^verbatim>\<open>try\<close>. The string
  \<^verbatim>\<open>"test_id"\<close> and the array \<^verbatim>\<open>["test_id"]\<close> pass the membership test and fail at
  \<^verbatim>\<open>data["test_id"]\<close>, with \<^verbatim>\<open>TypeError\<close> again. In each case the handler raises and
  returns no response; the world is untouched, not even a log record is written.
\<close>

theorem create_test_non_mapping_raises:
  "create_test flt req_id now (Some (JNum n)) w = (Inl TypeError, w) \<and>
   create_test flt req_id now (Some JNull) w = (Inl TypeError, w) \<and>
   create_test flt req_id now (Some (JBool b)) w = (Inl TypeError, w) \<and>
   create_test flt req_id now (Some (JStr ''test_id'')) w = (Inl TypeError, w) \<and>
   create_test flt req_id now (Some (JArr [JStr ''test_id''])) w = (Inl TypeError, w)"
  by (simp add: create_test_def validate_data_def fields_list_def field_fails_def seq_def
      of_result_def)

section \<open>The guard of get_tests\<close>

text \<open>
  C7. When the query has no \<^verbatim>\<open>clinic_id\<close> or an empty one, \<open>get_tests\<close> returns status
  400 with the body \<^verbatim>\<open>{"error":"clinic_id is required"}\<close>, whatever the storage would do.
  The world changes by one log record only: no connection is opened and no query is
  executed.
\<close>

theorem get_tests_missing_clinic_id:
  assumes "clinic = None \<or> clinic = Some []"
  shows \<open>get_tests flt clinic w =
     (Inr (Response ''{"error":"clinic_id is required"}'' 400 ''application/json''),
      w\<lparr>trace := trace w @ [Logged WARNING [(''event'', LStr ''missing_clinic_id'')]]\<rparr>)\<close>
  using assms
  by (auto simp: get_tests_def get_tests_missing_def seq_def logger_def ret_def emit_def)

theorem get_tests_missing_clinic_id_witness:
  \<open>get_tests no_faults None empty_world =
     (Inr (Response ''{"error":"clinic_id is required"}'' 400 ''application/json''),
      \<lparr>tests = [], conns = [], trace = [Logged WARNING [(''event'', LStr ''missing_clinic_id'')]]\<rparr>) \<and>
   get_tests no_faults (Some []) empty_world =
     (Inr (Response ''{"error":"clinic_id is required"}'' 400 ''application/json''),
      \<lparr>tests = [], conns = [], trace = [Logged WARNING [(''event'', LStr ''missing_clinic_id'')]]\<rparr>)\<close>
  using get_tests_missing_clinic_id [of None no_faults empty_world]
    get_tests_missing_clinic_id [of "Some []" no_faults empty_world]
  by (simp add: empty_world_def)

section \<open>Connections\<close>

lemma keeps_othersD: "keeps_others p \<Longrightarrow> tl (conns (snd (p w))) = tl (conns w)"
  by (simp add: keeps_others_def)

lemma keeps_others_ret: "keeps_others (ret x)"
  by (simp add: keeps_others_def ret_def)

lemma keeps_others_of_result: "keeps_others (of_result r)"
  by (simp add: keeps_others_def of_result_def)

lemma keeps_others_logger: "keeps_others (logger l p)"
  by (simp add: keeps_others_def logger_def emit_def)

lemma statement_conns:
  "conns w = c # cs \<Longrightarrow> tl (conns (snd (statement q c cs w))) = cs"
  by (cases q; cases c) auto

lemma keeps_others_execute: "keeps_others (execute flt q)"
  by (auto simp: keeps_others_def execute_def emit_def Let_def statement_conns
      split: option.splits list.splits)

lemma keeps_others_seq:
  assumes "keeps_others m" "\<And>x. keeps_others (f x)"
  shows "keeps_others (seq m f)"
  unfolding keeps_others_def
proof
  fix w
  show "tl (conns (snd (seq m f w))) = tl (conns w)"
  proof (cases "m w")
    case (Pair r w')
    then have w': "tl (conns w') = tl (conns w)"
      using keeps_othersD [OF assms(1), of w] by simp
    show ?thesis
    proof (cases r)
      case (Inl e)
      with Pair w' show ?thesis by (simp add: seq_def)
    next
      case (Inr x)
      with Pair w' keeps_othersD [OF assms(2), of x w'] show ?thesis by (simp add: seq_def)
    qed
  qed
qed

lemma keeps_others_try_except:
  assumes "keeps_others m" "\<And>e. keeps_others (h e)"
  shows "keeps_others (try_except m h)"
  unfolding keeps_others_def
proof
  fix w
  show "tl (conns (snd (try_except m h w))) = tl (conns w)"
  proof (cases "m w")
    case (Pair r w')
    then have w': "tl (conns w') = tl (conns w)"
      using keeps_othersD [OF assms(1), of w] by simp
    show ?thesis
    proof (cases r)
      case (Inl e)
      with Pair w' keeps_othersD [OF assms(2), of e w'] show ?thesis
        by (simp add: try_except_def)
    next
      case (Inr x)
      with Pair w' show ?thesis by (simp add: try_except_def)
    qed
  qed
qed

lemma keeps_others_create_test_try: "keeps_others (create_test_try flt req_id now body)"
  unfolding create_test_try_def
  by (intro keeps_others_seq keeps_others_execute keeps_others_of_result keeps_others_logger
      keeps_others_ret)

lemma keeps_others_create_test_except: "keeps_others (create_test_except flt req_id body e)"
  unfolding create_test_except_def
  by (auto intro!: keeps_others_seq keeps_others_execute keeps_others_of_result
      keeps_others_logger keeps_others_ret)

lemma keeps_others_get_tests_try: "keeps_others (get_tests_try flt cid)"
  unfolding get_tests_try_def
  by (intro keeps_others_seq keeps_others_execute keeps_others_logger keeps_others_ret)

lemma keeps_others_get_tests_except: "keeps_others (get_tests_except cid e)"
  unfolding get_tests_except_def
  by (intro keeps_others_seq keeps_others_logger keeps_others_ret)

text \<open>
  A connection is opened, used by a computation that keeps the others, and closed in the
  \<^verbatim>\<open>finally\<close> clause: the open connections are those of before, whether the computation
  returns or raises, and also when the connection cannot be opened.
\<close>

lemma scoped_connection:
  assumes "keeps_others p"
  shows "conns (snd (seq (sqlite3_connect flt) (\<lambda>_. try_finally p conn_close) w)) = conns w"
proof (cases "flt Connect")
  case (Some e)
  then show ?thesis by (simp add: seq_def sqlite3_connect_def emit_def)
next
  case None
  define w1 where "w1 = (emit (Call Connect) w)\<lparr>conns := None # conns w\<rparr>"
  have "tl (conns (snd (p w1))) = conns w"
    using keeps_othersD [OF assms, of w1] by (simp add: w1_def)
  then have "conns (snd (try_finally p conn_close w1)) = conns w"
    by (cases "p w1") (simp add: try_finally_def conn_close_def emit_def)
  with None show ?thesis
    by (simp add: seq_def sqlite3_connect_def emit_def w1_def)
qed

lemma create_test_store_conns: "conns (snd (create_test_store flt req_id now body w)) = conns w"
  unfolding create_test_store_def
  by (intro scoped_connection keeps_others_try_except keeps_others_create_test_try
      keeps_others_create_test_except)

text \<open>
  C9. On both endpoints, for every request, every world and every pattern of storage
  failures, the open connections after the handler are the open connections before it,
  whether the handler returns a response or raises: the connection the handler opened is
  closed, and the transaction it held went with it. This covers the commit, the
  uniqueness conflict, every other storage failure (also a failing \<^verbatim>\<open>ROLLBACK\<close> inside an
  \<^verbatim>\<open>except\<close> clause) and the paths that open no connection.
\<close>

theorem connections_released:
  "conns (snd (create_test flt req_id now request w)) = conns w \<and>
   conns (snd (get_tests flt clinic w)) = conns w"
proof
  show "conns (snd (create_test flt req_id now request w)) = conns w"
    by (auto simp: create_test_def create_test_invalid_def seq_def of_result_def logger_def
        ret_def emit_def create_test_store_conns split: option.splits sum.splits)
  have "conns (snd (seq (sqlite3_connect flt)
      (\<lambda>_. try_finally (try_except (get_tests_try flt cid) (get_tests_except cid)) conn_close)
      w)) = conns w" for cid
    by (intro scoped_connection keeps_others_try_except keeps_others_get_tests_try
        keeps_others_get_tests_except)
  then show "conns (snd (get_tests flt clinic w)) = conns w"
    by (auto simp: get_tests_def get_tests_missing_def seq_def logger_def ret_def emit_def
        split: option.splits)
qed

section \<open>create_test after validation\<close>

lemma validate_data_JObj:
  "validate_data (JObj m) =
     Inr (map_option (\<lambda>f. ''Invalid or missing field: '' @ f) (find (field_invalid m) fields_list))"
  by (simp only: validate_data_def validate_loop_JObj)

lemma validate_loop_msg: "validate_loop data fs = Inr (Some msg) \<Longrightarrow> msg \<noteq> []"
  by (induction fs) (auto split: sum.splits bool.splits)

lemma validate_data_msg: "validate_data data = Inr (Some msg) \<Longrightarrow> msg \<noteq> []"
  by (auto simp: validate_data_def dest: validate_loop_msg)

lemma create_test_rejected:
  assumes "validate_data body = Inr (Some msg)" "msg \<noteq> []"
  shows \<open>create_test flt req_id now (Some body) w =
     (Inr (Response (''{"error":"'' @ msg @ ''"}'') 400 ''application/json''),
      w\<lparr>trace := trace w @ [Logged WARNING [(''event'', LStr ''validation_failed''),
          (''request_id'', LStr req_id), (''reason'', LStr msg)]]\<rparr>)\<close>
  using assms
  by (simp add: create_test_def create_test_invalid_def seq_def of_result_def logger_def
      ret_def emit_def)

lemma create_test_accepted:
  assumes "validate_data body = Inr None"
  shows "create_test flt req_id now (Some body) w = create_test_store flt req_id now body w"
  using assms by (simp add: create_test_def seq_def of_result_def)

lemma create_test_tests_unless_accepted:
  assumes "validate_data body \<noteq> Inr None"
  shows "tests (snd (create_test flt req_id now (Some body) w)) = tests w"
proof (cases "validate_data body")
  case (Inl e)
  then show ?thesis by (simp add: create_test_def seq_def of_result_def)
next
  case (Inr v)
  with assms obtain msg where v: "v = Some msg" by (cases v) auto
  with Inr have "msg \<noteq> []" by (auto dest: validate_data_msg)
  from create_test_rejected [OF Inr [unfolded v] this] show ?thesis by simp
qed

lemma insert_params_JObj:
  assumes "m ''test_id'' = Some (JStr t)" "m ''patient_id'' = Some (JStr p)"
    "m ''clinic_id'' = Some (JStr c)" "m ''test_type'' = Some (JStr d)" "m ''result'' = Some (JStr r)"
  shows "insert_params now (JObj m) =
    Inr \<lparr>test_id = t, patient_id = p, clinic_id = c, test_type = d, result = r, created_at = now\<rparr>"
  using assms by (simp add: insert_params_def)

lemma bind_text_Inr: "bind_text v = Inr s \<longleftrightarrow> v = JStr s"
  by (cases v) auto

text \<open>The row that is inserted holds the values of the body, as they are, and the clock.\<close>

lemma insert_params_Inr:
  assumes "insert_params now (JObj m) = Inr row"
  shows "m ''test_id'' = Some (JStr (test_id row)) \<and>
         m ''patient_id'' = Some (JStr (patient_id row)) \<and>
         m ''clinic_id'' = Some (JStr (clinic_id row)) \<and>
         m ''test_type'' = Some (JStr (test_type row)) \<and>
         m ''result'' = Some (JStr (result row)) \<and>
         created_at row = now"
  using assms
  by (auto simp: insert_params_def bind_text_Inr split: option.splits sum.splits)

lemma encodable_JStr: "encodable m f \<Longrightarrow> \<exists>s. m f = Some (JStr s)"
  by (auto simp: encodable_def split: option.splits json.splits)

lemmas prog_defs = ret_def of_result_def seq_def try_except_def try_finally_def emit_def
  logger_def sqlite3_connect_def execute_def conn_close_def

text \<open>
  With a key the table holds, every path through the connection leaves the table as it
  was: the \<^verbatim>\<open>INSERT\<close> fails (by the constraint, or for an outside reason), so \<^verbatim>\<open>COMMIT\<close> is
  never reached.
\<close>

lemma create_test_store_duplicate_tests:
  assumes "insert_params now body = Inr row" "test_id row \<in> test_id ` set (tests w)"
  shows "tests (snd (create_test_store flt req_id now body w)) = tests w"
  using assms
  by (cases "flt Connect"; cases "flt (Execute BEGIN)"; cases "flt (Execute (INSERT row))";
      cases "flt (Execute ROLLBACK)"; cases "py_getitem body ''test_id''")
    (simp_all add: create_test_store_def create_test_try_def create_test_except_def prog_defs)

text \<open>
  When a parameter does not bind, the \<^verbatim>\<open>INSERT\<close> never reaches the database: the table is
  as it was, and the answer, if there is one, is not a success.
\<close>

lemma create_test_store_unbound_tests:
  assumes "insert_params now body = Inl e"
  shows "tests (snd (create_test_store flt req_id now body w)) = tests w"
  using assms
  by (cases "flt Connect"; cases "flt (Execute BEGIN)"; cases "flt (Execute ROLLBACK)";
      cases "py_getitem body ''test_id''"; cases "e = IntegrityError")
    (auto simp add: create_test_store_def create_test_try_def create_test_except_def prog_defs
      split: if_splits)

lemma create_test_store_unbound_status:
  assumes "insert_params now body = Inl e"
    "fst (create_test_store flt req_id now body w) = Inr resp"
  shows "http_status resp \<noteq> 200"
  using assms
  by (cases "flt Connect"; cases "flt (Execute BEGIN)"; cases "flt (Execute ROLLBACK)";
      cases "py_getitem body ''test_id''"; cases "e = IntegrityError")
    (auto simp add: create_test_store_def create_test_try_def create_test_except_def prog_defs
      split: if_splits)

lemma create_test_store_conflict:
  assumes "insert_params now body = Inr row" "test_id row \<in> test_id ` set (tests w)"
    "py_getitem body ''test_id'' = Inr v" "\<forall>c. flt c = None"
  shows \<open>create_test_store flt req_id now body w =
     (Inr (Response ''{"error":"Conflict: test_id exists"}'' 409 ''application/json''),
      w\<lparr>trace := trace w @ [Call Connect, Call (Execute BEGIN), Call (Execute (INSERT row)),
         Call (Execute ROLLBACK),
         Logged ERROR [(''event'', LStr ''duplicate_test''), (''request_id'', LStr req_id),
           (''test_id'', LJson v)],
         Closed]\<rparr>)\<close>
  using assms
  by (simp add: create_test_store_def create_test_try_def create_test_except_def prog_defs)

text \<open>
  A value with a lone surrogate passes \<open>validate_data\<close> and fails to bind: with no failure
  of the storage, the second \<^verbatim>\<open>except\<close> clause rolls back and answers 500.
\<close>

lemma create_test_store_unencodable:
  assumes "insert_params now body = Inl UnicodeEncodeError" "\<forall>c. flt c = None"
  shows \<open>create_test_store flt req_id now body w =
     (Inr (Response ''{"error":"Internal Error"}'' 500 ''application/json''),
      w\<lparr>trace := trace w @ [Call Connect, Call (Execute BEGIN), Call (Execute ROLLBACK),
         Logged ERROR [(''event'', LStr ''internal_server_error''), (''request_id'', LStr req_id),
           (''error'', LExc UnicodeEncodeError)],
         Closed]\<rparr>)\<close>
  using assms
  by (simp add: create_test_store_def create_test_try_def create_test_except_def prog_defs)

text \<open>The only answer with status 200 is the one after \<^verbatim>\<open>COMMIT\<close>: the row is in the table.\<close>

lemma create_test_store_200:
  assumes "insert_params now body = Inr row"
    "fst (create_test_store flt req_id now body w) = Inr resp" "http_status resp = 200"
  shows "tests (snd (create_test_store flt req_id now body w)) = tests w @ [row]"
  using assms
  by (cases "flt Connect"; cases "flt (Execute BEGIN)"; cases "flt (Execute (INSERT row))";
      cases "flt (Execute ROLLBACK)"; cases "flt (Execute COMMIT)";
      cases "py_getitem body ''test_id''"; cases "test_id row \<in> test_id ` set (tests w)")
    (auto simp add: create_test_store_def create_test_try_def create_test_except_def prog_defs
      split: if_splits)

text \<open>
  C1 (as amended). Take a create request whose body is a mapping with a string
  \<^verbatim>\<open>test_id\<close> that a persisted row already has. Then the persisted rows are unchanged,
  whatever else the body holds and whatever the storage does. When moreover the body
  passes \<open>validate_data\<close>, each of its five values has a UTF-8 encoding (holds no lone
  surrogate) and no storage call fails for a reason of its own, \<open>create_test\<close> returns status
  409 with the body \<^verbatim>\<open>{"error":"Conflict: test_id exists"}\<close>, and what it did is: connect,
  \<^verbatim>\<open>BEGIN\<close>, the refused \<^verbatim>\<open>INSERT\<close>, \<^verbatim>\<open>ROLLBACK\<close>, one log record, close.
\<close>

theorem create_test_duplicate:
  assumes "m ''test_id'' = Some (JStr t)" "t \<in> test_id ` set (tests w)"
  shows \<open>tests (snd (create_test flt req_id now (Some (JObj m)) w)) = tests w \<and>
         (validate_data (JObj m) = Inr None \<and>
          list_all (encodable m)
            [''test_id'', ''patient_id'', ''clinic_id'', ''test_type'', ''result''] \<and>
          (\<forall>c. flt c = None) \<longrightarrow>
            fst (create_test flt req_id now (Some (JObj m)) w) =
              Inr (Response ''{"error":"Conflict: test_id exists"}'' 409 ''application/json'') \<and>
            (\<exists>row. test_id row = t \<and>
               snd (create_test flt req_id now (Some (JObj m)) w) =
                 w\<lparr>trace := trace w @ [Call Connect, Call (Execute BEGIN),
                    Call (Execute (INSERT row)), Call (Execute ROLLBACK),
                    Logged ERROR [(''event'', LStr ''duplicate_test''),
                      (''request_id'', LStr req_id), (''test_id'', LJson (JStr t))],
                    Closed]\<rparr>))\<close>
proof (cases "validate_data (JObj m) = Inr None")
  case False
  then show ?thesis
    by (simp add: create_test_tests_unless_accepted)
next
  case True
  note store = create_test_accepted [OF True]
  have unchanged: "tests (snd (create_test flt req_id now (Some (JObj m)) w)) = tests w"
  proof (cases "insert_params now (JObj m)")
    case (Inl e)
    then show ?thesis
      by (simp add: store create_test_store_unbound_tests)
  next
    case (Inr row)
    from insert_params_Inr [OF Inr] assms(1) have "test_id row = t"
      by simp
    with assms(2) have "test_id row \<in> test_id ` set (tests w)"
      by simp
    from create_test_store_duplicate_tests [OF Inr this] show ?thesis
      by (simp add: store)
  qed
  have conflict: \<open>fst (create_test flt req_id now (Some (JObj m)) w) =
              Inr (Response ''{"error":"Conflict: test_id exists"}'' 409 ''application/json'') \<and>
            (\<exists>row. test_id row = t \<and>
               snd (create_test flt req_id now (Some (JObj m)) w) =
                 w\<lparr>trace := trace w @ [Call Connect, Call (Execute BEGIN),
                    Call (Execute (INSERT row)), Call (Execute ROLLBACK),
                    Logged ERROR [(''event'', LStr ''duplicate_test''),
                      (''request_id'', LStr req_id), (''test_id'', LJson (JStr t))],
                    Closed]\<rparr>)\<close>
    if enc: "list_all (encodable m)
        [''test_id'', ''patient_id'', ''clinic_id'', ''test_type'', ''result'']"
      and nf: "\<forall>c. flt c = None"
  proof -
    from enc obtain p c d r where
      "m ''patient_id'' = Some (JStr p)" "m ''clinic_id'' = Some (JStr c)"
      "m ''test_type'' = Some (JStr d)" "m ''result'' = Some (JStr r)"
      by (auto dest!: encodable_JStr)
    from insert_params_JObj [OF assms(1) this]
    obtain row where row: "insert_params now (JObj m) = Inr row" "test_id row = t"
      by simp
    have dup: "test_id row \<in> test_id ` set (tests w)"
      using row(2) assms(2) by simp
    have item: "py_getitem (JObj m) ''test_id'' = Inr (JStr t)"
      using assms(1) by simp
    show ?thesis
      using row(2)
      by (auto simp: store create_test_store_conflict [OF row(1) dup item nf])
  qed
  from unchanged conflict show ?thesis by blast
qed

lemmas val_defs = validate_data_def fields_list_def field_fails_def strip_def isspace_def

text \<open>
  The first scenario of the specification, second step: the payload is sent again while its
  row is stored.
\<close>

theorem create_test_duplicate_witness:
  \<open>payload_t1 ''test_id'' = Some (JStr ''t1'') \<and>
   ''t1'' \<in> test_id ` set (tests (empty_world\<lparr>tests := [row_t1]\<rparr>)) \<and>
   validate_data (JObj payload_t1) = Inr None \<and>
   list_all (encodable payload_t1)
     [''test_id'', ''patient_id'', ''clinic_id'', ''test_type'', ''result''] \<and>
   tests (snd (create_test no_faults ''r2'' ''2026-01-05T00:00:00'' (Some (JObj payload_t1))
     (empty_world\<lparr>tests := [row_t1]\<rparr>))) = [row_t1] \<and>
   fst (create_test no_faults ''r2'' ''2026-01-05T00:00:00'' (Some (JObj payload_t1))
     (empty_world\<lparr>tests := [row_t1]\<rparr>)) =
     Inr (Response ''{"error":"Conflict: test_id exists"}'' 409 ''application/json'')\<close>
proof -
  have h1: "payload_t1 ''test_id'' = Some (JStr ''t1'')"
    by (simp add: payload_t1_def)
  have h2: "''t1'' \<in> test_id ` set (tests (empty_world\<lparr>tests := [row_t1]\<rparr>))"
    by (simp add: row_t1_def)
  have h3: "validate_data (JObj payload_t1) = Inr None"
    by (simp add: payload_t1_def val_defs)
  have h4: "\<forall>c. no_faults c = None"
    by (simp add: no_faults_def)
  have h5: "list_all (encodable payload_t1)
     [''test_id'', ''patient_id'', ''clinic_id'', ''test_type'', ''result'']"
    by (simp add: payload_t1_def encodable_def)
  show ?thesis
    using h1 h2 h3 h4 h5
      create_test_duplicate [where m = payload_t1 and t = "''t1''"
        and w = "empty_world\<lparr>tests := [row_t1]\<rparr>" and flt = no_faults and req_id = "''r2''"
        and now = "''2026-01-05T00:00:00''", OF h1 h2]
    by simp
qed

text \<open>
  C1 as stated fails: a request with the \<^verbatim>\<open>test_id\<close> of a stored row and no
  \<^verbatim>\<open>patient_id\<close> is answered by the validation, with status 400, before storage is asked.
\<close>

theorem create_test_duplicate_invalid_counterexample:
  \<open>''t1'' \<in> test_id ` set (tests (empty_world\<lparr>tests := [row_t1]\<rparr>)) \<and>
   fst (create_test no_faults ''r2'' ''2026-01-05T00:00:00''
     (Some (JObj [''test_id'' \<mapsto> JStr ''t1''])) (empty_world\<lparr>tests := [row_t1]\<rparr>)) =
     Inr (Response ''{"error":"Invalid or missing field: patient_id"}'' 400 ''application/json'')\<close>
  by (simp add: row_t1_def val_defs create_test_def create_test_invalid_def seq_def of_result_def
      logger_def ret_def)

text \<open>
  The same stored row and the same \<^verbatim>\<open>test_id\<close>, with a \<^verbatim>\<open>patient_id\<close> that is the lone
  surrogate U+D800: the payload passes \<open>validate_data\<close>, the \<^verbatim>\<open>INSERT\<close> raises
  \<^verbatim>\<open>UnicodeEncodeError\<close>, and the answer is 500 while no storage call has failed.
\<close>

lemma create_test_duplicate_surrogate:
  \<open>validate_data (JObj (payload_t1(''patient_id'' \<mapsto> JSur [] 0 []))) = Inr None \<and>
   create_test no_faults ''r2'' ''2026-01-05T00:00:00''
     (Some (JObj (payload_t1(''patient_id'' \<mapsto> JSur [] 0 [])))) (empty_world\<lparr>tests := [row_t1]\<rparr>) =
     (Inr (Response ''{"error":"Internal Error"}'' 500 ''application/json''),
      \<lparr>tests = [row_t1], conns = [],
       trace = [Call Connect, Call (Execute BEGIN), Call (Execute ROLLBACK),
         Logged ERROR [(''event'', LStr ''internal_server_error''), (''request_id'', LStr ''r2''),
           (''error'', LExc UnicodeEncodeError)],
         Closed]\<rparr>)\<close>
proof -
  let ?m = "payload_t1(''patient_id'' \<mapsto> JSur [] 0 [])"
  have v: "validate_data (JObj ?m) = Inr None"
    by (simp add: payload_t1_def val_defs py_strip_def sur_chars_def)
  have p: "insert_params ''2026-01-05T00:00:00'' (JObj ?m) = Inl UnicodeEncodeError"
    by (simp add: payload_t1_def insert_params_def)
  have nf: "\<forall>c. no_faults c = None"
    by (simp add: no_faults_def)
  show ?thesis
    using v by (simp add: create_test_accepted [OF v] create_test_store_unencodable [OF p nf]
        empty_world_def)
qed

section \<open>get_tests on storage\<close>

lemma get_tests_run:
  assumes "cid \<noteq> []" "flt Connect = None" "flt (Execute (SELECT cid)) = None"
  shows "get_tests flt (Some cid) w =
     (Inr (Value (JArr (map dict_of_row (filter (\<lambda>r. clinic_id r = cid) (tests w))))),
      w\<lparr>trace := trace w @ [Call Connect, Call (Execute (SELECT cid)),
          Logged INFO [(''event'', LStr ''fetch_tests''), (''clinic_id'', LStr cid),
            (''count'', LInt (int (length (filter (\<lambda>r. clinic_id r = cid) (tests w)))))],
          Closed]\<rparr>)"
  using assms by (simp add: get_tests_def get_tests_try_def prog_defs)

lemma dict_of_row_fields:
  "\<exists>m. dict_of_row r = JObj m \<and>
     dom m = {''test_id'', ''patient_id'', ''clinic_id'', ''test_type'', ''result'', ''created_at''}"
  by (auto simp: dict_of_row_def dom_def)

text \<open>The dict of a row determines the row: what is listed is what is stored.\<close>

lemma dict_of_row_inj: "dict_of_row r = dict_of_row r' \<Longrightarrow> r = r'"
  apply (simp add: dict_of_row_def)
  apply (frule_tac x="''test_id''" in fun_cong)
  apply (frule_tac x="''patient_id''" in fun_cong)
  apply (frule_tac x="''clinic_id''" in fun_cong)
  apply (frule_tac x="''test_type''" in fun_cong)
  apply (frule_tac x="''result''" in fun_cong)
  apply (drule_tac x="''created_at''" in fun_cong)
  apply simp
  done

lemma get_tests_connects:
  assumes "cid \<noteq> []"
  shows "\<exists>tr. trace (snd (get_tests flt (Some cid) w)) = trace w @ Call Connect # tr"
  using assms
  by (cases "flt Connect"; cases "flt (Execute (SELECT cid))")
    (simp_all add: get_tests_def get_tests_try_def get_tests_except_def prog_defs)

lemma get_tests_not_guard:
  assumes "cid \<noteq> []"
  shows \<open>fst (get_tests flt (Some cid) w) \<noteq>
     Inr (Response ''{"error":"clinic_id is required"}'' 400 ''application/json'')\<close>
  using assms
  by (cases "flt Connect"; cases "flt (Execute (SELECT cid))")
    (simp_all add: get_tests_def get_tests_try_def get_tests_except_def prog_defs)

text \<open>
  C4. For a non-empty \<^verbatim>\<open>clinic_id\<close> and any stored rows, when the connection and the query
  do not fail, \<open>get_tests\<close> returns with status 200 the JSON array of the dicts of
  exactly the rows whose \<^verbatim>\<open>clinic_id\<close> is equal, as a string, to the parameter, in stored
  order; a row is listed if and only if it is stored with that \<^verbatim>\<open>clinic_id\<close>; every dict has
  the six fields; with no such row the array is empty, still with status 200; the table is
  unchanged.
\<close>

theorem get_tests_exact_match:
  assumes "cid \<noteq> []" "flt Connect = None" "flt (Execute (SELECT cid)) = None"
  shows "fst (get_tests flt (Some cid) w) =
           Inr (Value (JArr (map dict_of_row (filter (\<lambda>r. clinic_id r = cid) (tests w))))) \<and>
         http_status (Value (JArr (map dict_of_row (filter (\<lambda>r. clinic_id r = cid) (tests w))))) = 200 \<and>
         (\<forall>r. dict_of_row r \<in> set (map dict_of_row (filter (\<lambda>r. clinic_id r = cid) (tests w)))
            \<longleftrightarrow> r \<in> set (tests w) \<and> clinic_id r = cid) \<and>
         (\<forall>r. \<exists>m. dict_of_row r = JObj m \<and>
            dom m = {''test_id'', ''patient_id'', ''clinic_id'', ''test_type'', ''result'', ''created_at''}) \<and>
         ((\<forall>r \<in> set (tests w). clinic_id r \<noteq> cid) \<longrightarrow>
            fst (get_tests flt (Some cid) w) = Inr (Value (JArr []))) \<and>
         tests (snd (get_tests flt (Some cid) w)) = tests w"
  using assms
  by (auto simp: get_tests_run dict_of_row_fields filter_empty_conv dest: dict_of_row_inj)

text \<open>
  Four stored rows with the clinics \<^verbatim>\<open>c1\<close>, \<^verbatim>\<open>C1\<close>, \<^verbatim>\<open>c10\<close> and a blank one: the query for
  \<^verbatim>\<open>c1\<close> lists the first row only.
\<close>

theorem get_tests_exact_match_witness:
  "''c1'' \<noteq> [] \<and> no_faults Connect = None \<and> no_faults (Execute (SELECT ''c1'')) = None \<and>
   fst (get_tests no_faults (Some ''c1'') (empty_world\<lparr>tests := [row_t1, row_t2, row_t3, row_t4]\<rparr>)) =
     Inr (Value (JArr [dict_of_row row_t1])) \<and>
   tests (snd (get_tests no_faults (Some ''c1'')
     (empty_world\<lparr>tests := [row_t1, row_t2, row_t3, row_t4]\<rparr>))) = [row_t1, row_t2, row_t3, row_t4]"
proof -
  have h1: "''c1'' \<noteq> []" by simp
  have h2: "no_faults Connect = None" by (simp add: no_faults_def)
  have h3: "no_faults (Execute (SELECT ''c1'')) = None" by (simp add: no_faults_def)
  show ?thesis
    using h1 h2 h3
      get_tests_exact_match [OF h1 h2 h3, of "empty_world\<lparr>tests := [row_t1, row_t2, row_t3, row_t4]\<rparr>"]
    by (simp add: row_t1_def row_t2_def row_t3_def row_t4_def)
qed

section \<open>Round trip\<close>

text \<open>
  C3. When \<open>create_test\<close> answers a payload with status 200, the payload is a mapping whose
  five fields are strings, and a \<open>get_tests\<close> for its \<^verbatim>\<open>clinic_id\<close> that follows in the
  world the create has left, and whose connection and query do not fail, returns an array
  that holds an object with exactly six keys: under each of the five field names the very
  string that was submitted, untrimmed, and under \<^verbatim>\<open>created_at\<close> the string \<open>now\<close>, the clock
  of the server, whatever the payload held under that name.
\<close>

theorem create_then_list_roundtrip:
  assumes "fst (create_test flt req_id now (Some body) w) = Inr resp" "http_status resp = 200"
  shows "\<exists>m t p c d r. body = JObj m \<and>
           m ''test_id'' = Some (JStr t) \<and> m ''patient_id'' = Some (JStr p) \<and>
           m ''clinic_id'' = Some (JStr c) \<and> m ''test_type'' = Some (JStr d) \<and>
           m ''result'' = Some (JStr r) \<and>
           (\<forall>flt'. flt' Connect = None \<and> flt' (Execute (SELECT c)) = None \<longrightarrow>
              (\<exists>rows obj.
                 fst (get_tests flt' (Some c) (snd (create_test flt req_id now (Some body) w))) =
                   Inr (Value (JArr rows)) \<and>
                 JObj obj \<in> set rows \<and>
                 obj ''test_id'' = Some (JStr t) \<and> obj ''patient_id'' = Some (JStr p) \<and>
                 obj ''clinic_id'' = Some (JStr c) \<and> obj ''test_type'' = Some (JStr d) \<and>
                 obj ''result'' = Some (JStr r) \<and> obj ''created_at'' = Some (JStr now) \<and>
                 dom obj = {''test_id'', ''patient_id'', ''clinic_id'', ''test_type'', ''result'',
                   ''created_at''}))"
proof -
  have ok: "validate_data body = Inr None"
  proof (rule ccontr)
    assume no: "validate_data body \<noteq> Inr None"
    show False
    proof (cases "validate_data body")
      case (Inl e)
      with assms(1) show False by (simp add: create_test_def seq_def of_result_def)
    next
      case (Inr v)
      with no obtain msg where v: "v = Some msg" by (cases v) auto
      with Inr have "msg \<noteq> []" by (auto dest: validate_data_msg)
      from create_test_rejected [OF Inr [unfolded v] this, of flt req_id now w] assms
      show False by auto
    qed
  qed
  from validate_data_None [OF ok] obtain m where
    body: "body = JObj m" and valid: "\<not> field_invalid m ''clinic_id''"
    by (auto simp: fields_list_def)
  have store: "create_test flt req_id now (Some body) w = create_test_store flt req_id now body w"
    by (rule create_test_accepted [OF ok])
  obtain row where row: "insert_params now body = Inr row"
  proof (cases "insert_params now body")
    case (Inl e)
    from create_test_store_unbound_status [OF Inl, of flt req_id w resp] assms
    show ?thesis by (simp add: store)
  next
    case (Inr row)
    with that show ?thesis .
  qed
  define t p c d r where "t = test_id row" and "p = patient_id row" and "c = clinic_id row"
    and "d = test_type row" and "r = result row"
  have f: "m ''test_id'' = Some (JStr t)" "m ''patient_id'' = Some (JStr p)"
    "m ''clinic_id'' = Some (JStr c)" "m ''test_type'' = Some (JStr d)"
    "m ''result'' = Some (JStr r)" and at: "created_at row = now"
    using insert_params_Inr [OF row [unfolded body]]
    by (simp_all add: t_def p_def c_def d_def r_def)
  have tests': "tests (snd (create_test flt req_id now (Some body) w)) = tests w @ [row]"
    using create_test_store_200 [OF row, of flt req_id w resp] assms by (simp add: store)
  have "strip c \<noteq> []"
    by (rule field_valid_JStr [OF valid f(3)])
  then have "c \<noteq> []"
    by (auto simp: strip_def)
  define obj where "obj = [''test_id'' \<mapsto> JStr t, ''patient_id'' \<mapsto> JStr p,
    ''clinic_id'' \<mapsto> JStr c, ''test_type'' \<mapsto> JStr d, ''result'' \<mapsto> JStr r,
    ''created_at'' \<mapsto> JStr now]"
  have listed: "dict_of_row row = JObj obj"
    by (simp add: dict_of_row_def obj_def t_def p_def c_def d_def r_def at)
  have vals: "obj ''test_id'' = Some (JStr t)" "obj ''patient_id'' = Some (JStr p)"
    "obj ''clinic_id'' = Some (JStr c)" "obj ''test_type'' = Some (JStr d)"
    "obj ''result'' = Some (JStr r)" "obj ''created_at'' = Some (JStr now)"
    by (simp_all add: obj_def)
  have keys: "dom obj = {''test_id'', ''patient_id'', ''clinic_id'', ''test_type'', ''result'',
      ''created_at''}"
    by (auto simp: obj_def)
  have crow: "clinic_id row = c"
    by (simp add: c_def)
  have main: "\<forall>flt'. flt' Connect = None \<and> flt' (Execute (SELECT c)) = None \<longrightarrow>
      (\<exists>rows obj.
         fst (get_tests flt' (Some c) (snd (create_test flt req_id now (Some body) w))) =
           Inr (Value (JArr rows)) \<and>
         JObj obj \<in> set rows \<and>
         obj ''test_id'' = Some (JStr t) \<and> obj ''patient_id'' = Some (JStr p) \<and>
         obj ''clinic_id'' = Some (JStr c) \<and> obj ''test_type'' = Some (JStr d) \<and>
         obj ''result'' = Some (JStr r) \<and> obj ''created_at'' = Some (JStr now) \<and>
         dom obj = {''test_id'', ''patient_id'', ''clinic_id'', ''test_type'', ''result'',
           ''created_at''})"
  proof (intro allI impI)
    fix flt' :: faults
    assume ok': "flt' Connect = None \<and> flt' (Execute (SELECT c)) = None"
    let ?rows = "map dict_of_row (filter (\<lambda>r. clinic_id r = c) (tests w @ [row]))"
    have answer: "fst (get_tests flt' (Some c) (snd (create_test flt req_id now (Some body) w))) =
        Inr (Value (JArr ?rows))"
      using ok' by (simp add: get_tests_run [OF \<open>c \<noteq> []\<close>] tests')
    have "dict_of_row row \<in> set ?rows"
      using crow by simp
    then have member: "JObj obj \<in> set ?rows"
      unfolding listed .
    show "\<exists>rows obj.
         fst (get_tests flt' (Some c) (snd (create_test flt req_id now (Some body) w))) =
           Inr (Value (JArr rows)) \<and>
         JObj obj \<in> set rows \<and>
         obj ''test_id'' = Some (JStr t) \<and> obj ''patient_id'' = Some (JStr p) \<and>
         obj ''clinic_id'' = Some (JStr c) \<and> obj ''test_type'' = Some (JStr d) \<and>
         obj ''result'' = Some (JStr r) \<and> obj ''created_at'' = Some (JStr now) \<and>
         dom obj = {''test_id'', ''patient_id'', ''clinic_id'', ''test_type'', ''result'',
           ''created_at''}"
      by (rule exI [of _ ?rows], rule exI [of _ obj], intro conjI)
        (fact answer member vals keys)+
  qed
  show ?thesis
    by (rule exI [of _ m], rule exI [of _ t], rule exI [of _ p], rule exI [of _ c],
        rule exI [of _ d], rule exI [of _ r], intro conjI)
      (fact body f main)+
qed

lemmas store_defs = create_test_def create_test_store_def create_test_invalid_def
  create_test_try_def create_test_except_def insert_params_def

text \<open>
  The first scenario of the specification with blanks around the result and a
  \<^verbatim>\<open>created_at\<close> of the client's: the listing is the one object with the submitted strings,
  blanks included, and the clock of the server; the client's \<^verbatim>\<open>created_at\<close> is not in it.
\<close>

theorem create_then_list_roundtrip_witness:
  \<open>fst (create_test no_faults ''r1'' ''2026-01-01T00:00:00''
      (Some (JObj (payload_t1(''result'' \<mapsto> JStr '' positive '', ''created_at'' \<mapsto> JStr ''1999-12-31''))))
      empty_world) = Inr (Value (JObj [''status'' \<mapsto> JStr ''success''])) \<and>
   http_status (Value (JObj [''status'' \<mapsto> JStr ''success''])) = 200 \<and>
   (\<exists>rows obj. fst (get_tests no_faults (Some ''c1'')
        (snd (create_test no_faults ''r1'' ''2026-01-01T00:00:00''
          (Some (JObj (payload_t1(''result'' \<mapsto> JStr '' positive '', ''created_at'' \<mapsto> JStr ''1999-12-31''))))
          empty_world))) = Inr (Value (JArr rows)) \<and>
      JObj obj \<in> set rows \<and>
      obj ''test_id'' = Some (JStr ''t1'') \<and> obj ''patient_id'' = Some (JStr ''p1'') \<and>
      obj ''clinic_id'' = Some (JStr ''c1'') \<and> obj ''test_type'' = Some (JStr ''pcr'') \<and>
      obj ''result'' = Some (JStr '' positive '') \<and>
      obj ''created_at'' = Some (JStr ''2026-01-01T00:00:00'')) \<and>
   fst (get_tests no_faults (Some ''c1'')
        (snd (create_test no_faults ''r1'' ''2026-01-01T00:00:00''
          (Some (JObj (payload_t1(''result'' \<mapsto> JStr '' positive '', ''created_at'' \<mapsto> JStr ''1999-12-31''))))
          empty_world))) =
     Inr (Value (JArr [JObj [''test_id'' \<mapsto> JStr ''t1'', ''patient_id'' \<mapsto> JStr ''p1'',
       ''clinic_id'' \<mapsto> JStr ''c1'', ''test_type'' \<mapsto> JStr ''pcr'',
       ''result'' \<mapsto> JStr '' positive '', ''created_at'' \<mapsto> JStr ''2026-01-01T00:00:00'']]))\<close>
proof -
  let ?m = "payload_t1(''result'' \<mapsto> JStr '' positive '', ''created_at'' \<mapsto> JStr ''1999-12-31'')"
  let ?w = "snd (create_test no_faults ''r1'' ''2026-01-01T00:00:00'' (Some (JObj ?m)) empty_world)"
  have h1: "fst (create_test no_faults ''r1'' ''2026-01-01T00:00:00'' (Some (JObj ?m)) empty_world) =
      Inr (Value (JObj [''status'' \<mapsto> JStr ''success'']))"
    by (simp add: payload_t1_def empty_world_def no_faults_def val_defs store_defs prog_defs)
  have h2: "http_status (Value (JObj [''status'' \<mapsto> JStr ''success''])) = 200"
    by simp
  from create_then_list_roundtrip [OF h1 h2] obtain m t p c d r where
    all: "JObj ?m = JObj m \<and>
      m ''test_id'' = Some (JStr t) \<and> m ''patient_id'' = Some (JStr p) \<and>
      m ''clinic_id'' = Some (JStr c) \<and> m ''test_type'' = Some (JStr d) \<and>
      m ''result'' = Some (JStr r) \<and>
      (\<forall>flt'. flt' Connect = None \<and> flt' (Execute (SELECT c)) = None \<longrightarrow>
        (\<exists>rows obj. fst (get_tests flt' (Some c) ?w) = Inr (Value (JArr rows)) \<and>
           JObj obj \<in> set rows \<and>
           obj ''test_id'' = Some (JStr t) \<and> obj ''patient_id'' = Some (JStr p) \<and>
           obj ''clinic_id'' = Some (JStr c) \<and> obj ''test_type'' = Some (JStr d) \<and>
           obj ''result'' = Some (JStr r) \<and>
           obj ''created_at'' = Some (JStr ''2026-01-01T00:00:00'') \<and>
           dom obj = {''test_id'', ''patient_id'', ''clinic_id'', ''test_type'', ''result'',
             ''created_at''}))"
    by (elim exE) (erule that)
  note m = all [THEN conjunct1]
  note rest = all [THEN conjunct2]
  note f = rest [THEN conjunct1] rest [THEN conjunct2, THEN conjunct1]
    rest [THEN conjunct2, THEN conjunct2, THEN conjunct1]
    rest [THEN conjunct2, THEN conjunct2, THEN conjunct2, THEN conjunct1]
    rest [THEN conjunct2, THEN conjunct2, THEN conjunct2, THEN conjunct2, THEN conjunct1]
  note g = rest [THEN conjunct2, THEN conjunct2, THEN conjunct2, THEN conjunct2, THEN conjunct2]
  from m have "m = ?m" by simp
  with f have v: "t = ''t1''" "p = ''p1''" "c = ''c1''" "d = ''pcr''" "r = '' positive ''"
    by (simp_all add: payload_t1_def)
  have nf: "no_faults Connect = None \<and> no_faults (Execute (SELECT c)) = None"
    by (simp add: no_faults_def)
  from g [rule_format, OF nf] have listed: "\<exists>rows obj. fst (get_tests no_faults (Some ''c1'') ?w) = Inr (Value (JArr rows)) \<and>
      JObj obj \<in> set rows \<and>
      obj ''test_id'' = Some (JStr ''t1'') \<and> obj ''patient_id'' = Some (JStr ''p1'') \<and>
      obj ''clinic_id'' = Some (JStr ''c1'') \<and> obj ''test_type'' = Some (JStr ''pcr'') \<and>
      obj ''result'' = Some (JStr '' positive '') \<and>
      obj ''created_at'' = Some (JStr ''2026-01-01T00:00:00'')"
    unfolding v by (elim exE conjE) (intro exI conjI; assumption)
  have whole: "fst (get_tests no_faults (Some ''c1'') ?w) =
     Inr (Value (JArr [JObj [''test_id'' \<mapsto> JStr ''t1'', ''patient_id'' \<mapsto> JStr ''p1'',
       ''clinic_id'' \<mapsto> JStr ''c1'', ''test_type'' \<mapsto> JStr ''pcr'',
       ''result'' \<mapsto> JStr '' positive '', ''created_at'' \<mapsto> JStr ''2026-01-01T00:00:00'']]))"
    by (simp add: payload_t1_def empty_world_def no_faults_def val_defs store_defs prog_defs
        get_tests_def get_tests_try_def dict_of_row_def)
  show ?thesis
    by (intro conjI) (fact h1 h2 listed whole)+
qed

section \<open>Blank clinic_id\<close>

lemma blank_rejected:
  assumes "m ''clinic_id'' = Some (JStr cid)" "strip cid = []"
  shows \<open>\<exists>f. create_test flt req_id now (Some (JObj m)) w =
     (Inr (Response (''{"error":"Invalid or missing field: '' @ f @ ''"}'') 400 ''application/json''),
      w\<lparr>trace := trace w @ [Logged WARNING [(''event'', LStr ''validation_failed''),
          (''request_id'', LStr req_id), (''reason'', LStr (''Invalid or missing field: '' @ f))]]\<rparr>)\<close>
proof -
  have "field_invalid m ''clinic_id''"
    using assms by (simp add: field_invalid_def blank_def)
  then have "find (field_invalid m) fields_list \<noteq> None"
    by (simp add: find_None_iff fields_list_def)
  then obtain f where "find (field_invalid m) fields_list = Some f"
    by auto
  then have "validate_data (JObj m) = Inr (Some (''Invalid or missing field: '' @ f))"
    by (simp add: validate_data_JObj)
  from create_test_rejected [OF this] show ?thesis
    by auto
qed

text \<open>
  C10. A \<^verbatim>\<open>clinic_id\<close> that is not empty but blank after trimming passes the guard of
  \<open>get_tests\<close>: the answer is never the one of the guard, the handler goes on to call
  \<^verbatim>\<open>sqlite3.connect\<close>, and when the connection and the query do not fail it lists the rows
  whose \<^verbatim>\<open>clinic_id\<close> is that very string. The create path differs: a mapping with this
  string as \<^verbatim>\<open>clinic_id\<close> is refused by \<open>create_test\<close> with status 400, naming a field.
\<close>

theorem get_tests_blank_clinic_id:
  assumes "cid \<noteq> []" "strip cid = []"
  shows \<open>fst (get_tests flt (Some cid) w) \<noteq>
           Inr (Response ''{"error":"clinic_id is required"}'' 400 ''application/json'') \<and>
         (\<exists>tr. trace (snd (get_tests flt (Some cid) w)) = trace w @ Call Connect # tr) \<and>
         (flt Connect = None \<and> flt (Execute (SELECT cid)) = None \<longrightarrow>
            fst (get_tests flt (Some cid) w) =
              Inr (Value (JArr (map dict_of_row (filter (\<lambda>r. clinic_id r = cid) (tests w)))))) \<and>
         (m ''clinic_id'' = Some (JStr cid) \<longrightarrow>
            (\<exists>f. fst (create_test flt req_id now (Some (JObj m)) w) =
               Inr (Response (''{"error":"Invalid or missing field: '' @ f @ ''"}'') 400
                 ''application/json'')))\<close>
proof (intro conjI impI)
  show \<open>fst (get_tests flt (Some cid) w) \<noteq>
           Inr (Response ''{"error":"clinic_id is required"}'' 400 ''application/json'')\<close>
    by (rule get_tests_not_guard [OF assms(1)])
  show "\<exists>tr. trace (snd (get_tests flt (Some cid) w)) = trace w @ Call Connect # tr"
    by (rule get_tests_connects [OF assms(1)])
  show "fst (get_tests flt (Some cid) w) =
      Inr (Value (JArr (map dict_of_row (filter (\<lambda>r. clinic_id r = cid) (tests w)))))"
    if "flt Connect = None \<and> flt (Execute (SELECT cid)) = None"
    using that by (simp add: get_tests_run [OF assms(1)])
  show \<open>\<exists>f. fst (create_test flt req_id now (Some (JObj m)) w) =
               Inr (Response (''{"error":"Invalid or missing field: '' @ f @ ''"}'') 400
                 ''application/json'')\<close>
    if "m ''clinic_id'' = Some (JStr cid)"
    using blank_rejected [of m cid flt req_id now w] that assms(2) by auto
qed

text \<open>
  Two spaces as \<^verbatim>\<open>clinic_id\<close>: the query lists the stored row whose clinic is two spaces;
  the same string in a create payload is refused.
\<close>

theorem get_tests_blank_clinic_id_witness:
  \<open>''  '' \<noteq> [] \<and> strip ''  '' = [] \<and>
   fst (get_tests no_faults (Some ''  '') (empty_world\<lparr>tests := [row_t1, row_t4]\<rparr>)) =
     Inr (Value (JArr [dict_of_row row_t4])) \<and>
   (\<exists>f. fst (create_test no_faults ''r5'' ''2026-01-05T00:00:00''
      (Some (JObj (payload_t1(''clinic_id'' \<mapsto> JStr ''  ''))))
      (empty_world\<lparr>tests := [row_t1, row_t4]\<rparr>)) =
      Inr (Response (''{"error":"Invalid or missing field: '' @ f @ ''"}'') 400 ''application/json''))\<close>
proof -
  have h1: "''  '' \<noteq> []" by simp
  have h2: "strip ''  '' = []" by (simp add: strip_def isspace_def)
  have nf: "no_faults Connect = None \<and> no_faults (Execute (SELECT ''  '')) = None"
    by (simp add: no_faults_def)
  have m: "(payload_t1(''clinic_id'' \<mapsto> JStr ''  '')) ''clinic_id'' = Some (JStr ''  '')"
    by simp
  show ?thesis
    using h1 h2 nf m
      get_tests_blank_clinic_id [OF h1 h2, where flt = no_faults
        and w = "empty_world\<lparr>tests := [row_t1, row_t4]\<rparr>"
        and m = "payload_t1(''clinic_id'' \<mapsto> JStr ''  '')"
        and req_id = "''r5''" and now = "''2026-01-05T00:00:00''"]
    by (simp add: row_t1_def row_t4_def)
qed

section \<open>Start-up\<close>

text \<open>
  C6 (as amended). The fatal branch is taken exactly when \<^verbatim>\<open>DATABASE_URL\<close> is set to the
  empty string. When the variable is not set, the lookup gives the default
  \<^verbatim>\<open>records.db\<close>; when it is set to a non-empty string, that string is the location.
\<close>

theorem DB_PATH_cases:
  "(DB_PATH environ = Inl RuntimeError) = (environ ''DATABASE_URL'' = Some []) \<and>
   (environ ''DATABASE_URL'' = None \<longrightarrow> DB_PATH environ = Inr ''records.db'') \<and>
   (\<forall>v. environ ''DATABASE_URL'' = Some v \<and> v \<noteq> [] \<longrightarrow> DB_PATH environ = Inr v)"
  by (auto simp: DB_PATH_def os_getenv_def split: option.splits)

text \<open>The variable not set, set to a path, and set to the empty string.\<close>

theorem DB_PATH_cases_witness:
  "DB_PATH Map.empty = Inr ''records.db'' \<and>
   DB_PATH [''DATABASE_URL'' \<mapsto> ''/data/tests.db''] = Inr ''/data/tests.db'' \<and>
   DB_PATH [''DATABASE_URL'' \<mapsto> []] = Inl RuntimeError"
  using DB_PATH_cases [of Map.empty] DB_PATH_cases [of "[''DATABASE_URL'' \<mapsto> ''/data/tests.db'']"]
    DB_PATH_cases [of "[''DATABASE_URL'' \<mapsto> []]"]
  by simp

text \<open>
  C6 as stated fails: with \<^verbatim>\<open>DATABASE_URL\<close> set to the empty string \<^verbatim>\<open>os.getenv\<close> returns
  it, not the default, and the start-up raises.
\<close>

theorem DB_PATH_empty_raises:
  "DB_PATH [''DATABASE_URL'' \<mapsto> []] = Inl RuntimeError"
  by (simp add: DB_PATH_def os_getenv_def)

end
